theory Spec2Isabelle
  imports Complex_Main "HOL-Library.Log_Nat"
begin

section \<open>The room component of Studi-Watch (src/components/Room.tsx)\<close>

text \<open>
  The development embeds the class \<open>Room\<close> of \<open>src/components/Room.tsx\<close>: its React state,
  the socket it owns, the player reference and its event handlers.

  Conventions of the embedding.
  \<^item> JavaScript numbers are IEEE 754 doubles. They are modelled by the type \<open>number\<close>
    below, whose arithmetic rounds every result to the nearest double.
  \<^item> A handler is a function from the component before the call to the component after it.
    React applies \<open>setState\<close> after the handler has run; no handler of the class reads
    \<open>this.state\<close> after it has called \<open>setState\<close>, so the merge is applied in place.
  \<^item> The socket (socket.io-client) and the player (react-player) are libraries outside the
    repository. They are recorded by the calls the component makes on them, in order.
\<close>

subsection \<open>Numbers\<close>

text \<open>
  A JavaScript number is a finite double, one of the two infinities, or NaN. A finite
  double is given by its value, a rational. The two zeros are one value here: no operation
  of this class tells \<open>-0\<close> from \<open>0\<close>.
\<close>

datatype number = Fin rat | PInf | NInf | NaN

text \<open>Rounding to the nearest integer, a tie going to the even one.\<close>

definition round_half_even :: "rat \<Rightarrow> int" where
  "round_half_even x =
     (let f = \<lfloor>x\<rfloor>; d = x - of_int f
      in if d < 1 / 2 then f
         else if 1 / 2 < d then f + 1
         else if even f then f else f + 1)"

text \<open>
  \<open>fl q\<close> is the double nearest to \<open>q\<close> (binary64, round to nearest, ties to even). The
  value is scaled by \<open>2^1074\<close>, which makes the smallest subnormal step 1; a normal value
  with leading bit \<open>e\<close> is rounded to a multiple of \<open>2^(e - 52)\<close>, a subnormal one to a
  multiple of 1. A result of \<open>2^1024\<close> or more is an infinity. A decimal literal of the
  source, such as \<open>0.3\<close>, denotes \<open>fl (3 / 10)\<close>.
\<close>

definition fl :: "rat \<Rightarrow> number" where
  "fl q =
     (if q = 0 then Fin 0
      else
        let a = \<bar>q\<bar> * 2 ^ 1074;
            e = max (bitlen \<lfloor>a\<rfloor> - 1) 52;
            u = 2 ^ nat (e - 52);
            m = round_half_even (a / of_int u);
            r = of_int (m * u) / 2 ^ 1074
        in if 2 ^ 1024 \<le> r then (if 0 < q then PInf else NInf)
           else Fin (sgn q * r))"

text \<open>The operators \<open>-\<close>, \<open>*\<close> and \<open>>\<close> on numbers, and \<open>Math.abs\<close>.\<close>

fun num_sub :: "number \<Rightarrow> number \<Rightarrow> number" where
  "num_sub (Fin a) (Fin b) = fl (a - b)"
| "num_sub NaN y = NaN"
| "num_sub x NaN = NaN"
| "num_sub PInf PInf = NaN"
| "num_sub NInf NInf = NaN"
| "num_sub PInf y = PInf"
| "num_sub NInf y = NInf"
| "num_sub (Fin a) PInf = NInf"
| "num_sub (Fin a) NInf = PInf"

fun Math_abs :: "number \<Rightarrow> number" where
  "Math_abs (Fin a) = Fin \<bar>a\<bar>"
| "Math_abs PInf = PInf"
| "Math_abs NInf = PInf"
| "Math_abs NaN = NaN"

fun num_mul :: "number \<Rightarrow> number \<Rightarrow> number" where
  "num_mul (Fin a) (Fin b) = fl (a * b)"
| "num_mul NaN y = NaN"
| "num_mul x NaN = NaN"
| "num_mul PInf (Fin b) = (if b = 0 then NaN else if 0 < b then PInf else NInf)"
| "num_mul NInf (Fin b) = (if b = 0 then NaN else if 0 < b then NInf else PInf)"
| "num_mul (Fin a) PInf = (if a = 0 then NaN else if 0 < a then PInf else NInf)"
| "num_mul (Fin a) NInf = (if a = 0 then NaN else if 0 < a then NInf else PInf)"
| "num_mul PInf PInf = PInf"
| "num_mul PInf NInf = NInf"
| "num_mul NInf PInf = NInf"
| "num_mul NInf NInf = PInf"

fun num_gt :: "number \<Rightarrow> number \<Rightarrow> bool" where
  "num_gt (Fin a) (Fin b) = (b < a)"
| "num_gt NaN y = False"
| "num_gt x NaN = False"
| "num_gt PInf PInf = False"
| "num_gt PInf y = True"
| "num_gt NInf y = False"
| "num_gt (Fin a) PInf = False"
| "num_gt (Fin a) NInf = True"

text \<open>The truth test of a number, as in \<open>if (x)\<close>: zero and NaN are false.\<close>

fun truthy :: "number \<Rightarrow> bool" where
  "truthy (Fin a) = (a \<noteq> 0)"
| "truthy NaN = False"
| "truthy PInf = True"
| "truthy NInf = True"

subsection \<open>State model\<close>

text \<open>
  \<open>interface RoomState\<close> (lines 16-32). The participant record \<open>UserData\<close> extends
  \<open>RoomState\<close> itself and is only rendered, never inspected, by this class; it is left as the
  type parameter \<open>'u\<close>. The field \<open>id\<close> is named \<open>id_field\<close>, and the socket's
  \<open>connected\<close> below \<open>connected_flag\<close>, because HOL has constants of these names.
\<close>

record 'u RoomState =
  id_field :: string
  url :: string
  owner :: 'u
  playing :: bool
  volume :: number
  muted :: bool
  played :: number
  loaded :: number
  duration :: number
  playbackRate :: number
  loop :: bool
  ready :: bool
  buffering :: bool
  seeking :: bool
  users :: "'u list"

text \<open>
  A delta is a \<open>Partial<RoomState>\<close>: the object handed to \<open>setState\<close> and sent over the
  socket. A field that the object does not have is \<open>None\<close>.
\<close>

record 'u Delta =
  d_id :: "string option"
  d_url :: "string option"
  d_owner :: "'u option"
  d_playing :: "bool option"
  d_volume :: "number option"
  d_muted :: "bool option"
  d_played :: "number option"
  d_loaded :: "number option"
  d_duration :: "number option"
  d_playbackRate :: "number option"
  d_loop :: "bool option"
  d_ready :: "bool option"
  d_buffering :: "bool option"
  d_seeking :: "bool option"
  d_users :: "'u list option"

text \<open>The object literal \<open>{}\<close>; the literals of the source are updates of it.\<close>

definition no_change :: "'u Delta" where
  "no_change = \<lparr>d_id = None, d_url = None, d_owner = None, d_playing = None,
     d_volume = None, d_muted = None, d_played = None, d_loaded = None,
     d_duration = None, d_playbackRate = None, d_loop = None, d_ready = None,
     d_buffering = None, d_seeking = None, d_users = None\<rparr>"

text \<open>One field of React's shallow merge: a field of the delta replaces the old value.\<close>

fun overwrite :: "'a option \<Rightarrow> 'a \<Rightarrow> 'a" where
  "overwrite None old = old"
| "overwrite (Some v) old = v"

text \<open>
  \<open>this.setState(data)\<close>. The merge is React's, not the repository's: React documents it
  as a shallow merge of the object into the state, field by field.
\<close>

definition setState :: "'u Delta \<Rightarrow> 'u RoomState \<Rightarrow> 'u RoomState" where
  "setState data s =
     \<lparr>id_field = overwrite (d_id data) (id_field s),
      url = overwrite (d_url data) (url s),
      owner = overwrite (d_owner data) (owner s),
      playing = overwrite (d_playing data) (playing s),
      volume = overwrite (d_volume data) (volume s),
      muted = overwrite (d_muted data) (muted s),
      played = overwrite (d_played data) (played s),
      loaded = overwrite (d_loaded data) (loaded s),
      duration = overwrite (d_duration data) (duration s),
      playbackRate = overwrite (d_playbackRate data) (playbackRate s),
      loop = overwrite (d_loop data) (loop s),
      ready = overwrite (d_ready data) (ready s),
      buffering = overwrite (d_buffering data) (buffering s),
      seeking = overwrite (d_seeking data) (seeking s),
      users = overwrite (d_users data) (users s)\<rparr>"

subsection \<open>The socket, the player and the console\<close>

datatype 'u sock_call = Emit string "'u Delta" | On string | Disconnect

record 'u Socket =
  endpoint :: string
  query_roomId :: string
  connected_flag :: bool
  calls :: "'u sock_call list"

text \<open>
  \<open>socketIOClient(ENDPOINT, {query: {roomId}})\<close> returns a socket that connects in the
  background: \<open>connected\<close> is false until the transport reports the connection.
\<close>

definition socketIOClient :: "string \<Rightarrow> string \<Rightarrow> 'u Socket" where
  "socketIOClient ep rid =
     \<lparr>endpoint = ep, query_roomId = rid, connected_flag = False, calls = []\<rparr>"

definition socket_emit :: "string \<Rightarrow> 'u Delta \<Rightarrow> 'u Socket \<Rightarrow> 'u Socket" where
  "socket_emit ev data s = s\<lparr>calls := calls s @ [Emit ev data]\<rparr>"

definition socket_on :: "string \<Rightarrow> 'u Socket \<Rightarrow> 'u Socket" where
  "socket_on ev s = s\<lparr>calls := calls s @ [On ev]\<rparr>"

text \<open>\<open>socket.disconnect()\<close> closes the socket at once: \<open>connected\<close> is false afterwards.\<close>

definition socket_disconnect :: "'u Socket \<Rightarrow> 'u Socket" where
  "socket_disconnect s = s\<lparr>connected_flag := False, calls := calls s @ [Disconnect]\<rparr>"

text \<open>The deltas sent so far, and how often the socket was closed.\<close>

fun emitted :: "'u sock_call list \<Rightarrow> (string \<times> 'u Delta) list" where
  "emitted [] = []"
| "emitted (Emit ev data # cs) = (ev, data) # emitted cs"
| "emitted (On ev # cs) = emitted cs"
| "emitted (Disconnect # cs) = emitted cs"

fun disconnects :: "'u sock_call list \<Rightarrow> nat" where
  "disconnects [] = 0"
| "disconnects (Emit ev data # cs) = disconnects cs"
| "disconnects (On ev # cs) = disconnects cs"
| "disconnects (Disconnect # cs) = Suc (disconnects cs)"

text \<open>
  \<open>ReactPlayer.seekTo(amount, type?)\<close>: the second argument is \<open>'fraction'\<close>, \<open>'seconds'\<close>
  or missing.
\<close>

datatype seek_type = Fraction | Seconds

record Player =
  seeks :: "(number \<times> seek_type option) list"

definition seekTo :: "number \<Rightarrow> seek_type option \<Rightarrow> Player \<Rightarrow> Player" where
  "seekTo amount ty p = p\<lparr>seeks := seeks p @ [(amount, ty)]\<rparr>"

datatype 'u log_entry = Debug string "'u Delta" | Log string string

subsection \<open>The component\<close>

text \<open>
  \<open>class Room\<close>: the props, the state, \<open>this.socket\<close> (undefined before
  \<open>componentDidMount\<close>), \<open>this.player.current\<close> (null while no player is mounted) and the
  lines written to the console.
\<close>

record 'u Room =
  roomId :: string
  state :: "'u RoomState"
  socket :: "'u Socket option"
  player :: "Player option"
  console :: "'u log_entry list"

text \<open>Line 10: the server's address, by the environment variable \<open>REACT_APP_DOCKER\<close>.\<close>

definition ENDPOINT :: "bool \<Rightarrow> string" where
  "ENDPOINT docker = (if docker then [] else ''http://localhost:8081'')"

text \<open>
  The constructor (lines 43-66). Its owner is the object \<open>{name: "loading..."}\<close>, passed
  here as \<open>loading\<close>.
\<close>

definition constructor :: "string \<Rightarrow> 'u \<Rightarrow> 'u Room" where
  "constructor rid loading =
     \<lparr>roomId = rid,
      state = \<lparr>id_field = rid, url = ''https://youtu.be/Bi11Iid2hmo'', owner = loading,
        playing = True, volume = fl (3 / 10), muted = True, played = Fin 0, loaded = Fin 0,
        duration = Fin 0, playbackRate = Fin 1, loop = False, ready = False, buffering = False, seeking = False,
        users = []\<rparr>,
      socket = None, player = None, console = []\<rparr>"

text \<open>\<open>this.player.current?.seekTo(...)\<close>: nothing happens while the reference is null.\<close>

definition player_seekTo :: "number \<Rightarrow> seek_type option \<Rightarrow> 'u Room \<Rightarrow> 'u Room" where
  "player_seekTo amount ty w = w\<lparr>player := map_option (seekTo amount ty) (player w)\<rparr>"

text \<open>
  The handler of the inbound \<open>status\<close> event (lines 89-98). \<open>if (data.played)\<close> is
  JavaScript's truth test: it fails when the field is missing, when it is 0 and when it is
  NaN. The drift test of line 93 is computed in doubles: the difference is rounded, then the
  product.
\<close>

definition onStatus :: "'u Delta \<Rightarrow> 'u Room \<Rightarrow> 'u Room" where
  "onStatus data w =
     (let w1 = w\<lparr>console := console w @ [Debug ''Update from server:'' data]\<rparr>;
          w2 = (case d_played data of
                  None \<Rightarrow> w1
                | Some p \<Rightarrow>
                    if truthy p then
                      (if num_gt (num_mul (Math_abs (num_sub (played (state w1)) p))
                                   (duration (state w1))) (Fin 2)
                       then player_seekTo p (Some Fraction) w1
                       else w1)
                    else w1)
      in w2\<lparr>state := setState data (state w2)\<rparr>)"

text \<open>
  \<open>componentDidMount\<close> (lines 68-99): open the socket, send the twelve playback fields of
  the state, then register the \<open>status\<close> handler.
\<close>

definition initial_update :: "'u RoomState \<Rightarrow> 'u Delta" where
  "initial_update s =
     \<lparr>d_id = None, d_url = Some (url s), d_owner = None, d_playing = Some (playing s),
      d_volume = Some (volume s), d_muted = Some (muted s), d_played = Some (played s),
      d_loaded = Some (loaded s), d_duration = Some (duration s),
      d_playbackRate = Some (playbackRate s), d_loop = Some (loop s),
      d_ready = Some (ready s), d_buffering = Some (buffering s),
      d_seeking = Some (seeking s), d_users = None\<rparr>"

definition componentDidMount :: "bool \<Rightarrow> 'u Room \<Rightarrow> 'u Room" where
  "componentDidMount docker w =
     (let s0 = socketIOClient (ENDPOINT docker) (roomId w);
          s1 = socket_emit ''update'' (initial_update (state w)) s0;
          s2 = socket_on ''status'' s1
      in w\<lparr>socket := Some s2\<rparr>)"

text \<open>
  \<open>componentWillUnmount\<close> (lines 101-105). \<open>this.socket!.connected\<close> reads a property of
  \<open>undefined\<close> when no socket was created: a TypeError.
\<close>

datatype error = TypeError

definition componentWillUnmount :: "'u Room \<Rightarrow> error + 'u Room" where
  "componentWillUnmount w =
     (case socket w of
        None \<Rightarrow> Inl TypeError
      | Some s \<Rightarrow>
          if connected_flag s then Inr (w\<lparr>socket := Some (socket_disconnect s)\<rparr>)
          else Inr w)"

text \<open>\<open>updateState\<close> (lines 107-113): send the delta when there is a socket, then merge it.\<close>

definition updateState :: "'u Delta \<Rightarrow> 'u Room \<Rightarrow> 'u Room" where
  "updateState data w =
     (let w1 = (case socket w of
                  None \<Rightarrow> w
                | Some s \<Rightarrow>
                    w\<lparr>console := console w @ [Debug ''Updating to remote:'' data],
                      socket := Some (socket_emit ''update'' data s)\<rparr>)
      in w1\<lparr>state := setState data (state w1)\<rparr>)"

text \<open>\<open>load\<close> (lines 123-131) and \<open>changeToURL\<close> (lines 115-121); \<open>canPlay\<close> is
  \<open>ReactPlayer.canPlay\<close>.\<close>

definition load :: "string \<Rightarrow> 'u Room \<Rightarrow> 'u Room" where
  "load u w =
     updateState (no_change\<lparr>d_url := Some u, d_ready := Some False,
       d_played := Some (Fin 0), d_loaded := Some (Fin 0), d_playing := Some True\<rparr>) w"

definition changeToURL :: "(string \<Rightarrow> bool) \<Rightarrow> string \<Rightarrow> 'u Room \<Rightarrow> 'u Room" where
  "changeToURL canPlay u w =
     (if canPlay u then load u w
      else w\<lparr>console := console w @ [Log ''Error, cannot play url:'' u]\<rparr>)"

text \<open>
  The handlers of the scrub control (lines 133-144); \<open>v\<close> is
  \<open>parseFloat(e.target.value)\<close>.
\<close>

definition handleSeekMouseDown :: "'u Room \<Rightarrow> 'u Room" where
  "handleSeekMouseDown w = updateState (no_change\<lparr>d_seeking := Some True\<rparr>) w"

definition handleSeekChange :: "number \<Rightarrow> 'u Room \<Rightarrow> 'u Room" where
  "handleSeekChange v w = updateState (no_change\<lparr>d_played := Some v\<rparr>) w"

definition handleSeekMouseUp :: "number \<Rightarrow> 'u Room \<Rightarrow> 'u Room" where
  "handleSeekMouseUp v w =
     player_seekTo v None (updateState (no_change\<lparr>d_seeking := Some False\<rparr>) w)"

text \<open>The player's \<open>onEnded\<close> callback (lines 182-191).\<close>

definition onEnded :: "'u Room \<Rightarrow> 'u Room" where
  "onEnded w =
     (if loop (state w)
      then updateState (no_change\<lparr>d_playing := Some True, d_played := Some (Fin 0)\<rparr>) w
      else updateState (no_change\<lparr>d_playing := Some False\<rparr>) w)"

text \<open>
  The player's \<open>onPause\<close> callback (line 178). The player calls it when the medium is
  paused, also when that follows from the \<open>playing\<close> property turning false.
\<close>

definition onPause :: "'u Room \<Rightarrow> 'u Room" where
  "onPause w = updateState (no_change\<lparr>d_playing := Some False\<rparr>) w"

subsection \<open>Observations and composite runs\<close>

text \<open>What the component has sent so far, and how often it has closed its socket.\<close>

definition published :: "'u Room \<Rightarrow> (string \<times> 'u Delta) list" where
  "published w = (case socket w of None \<Rightarrow> [] | Some s \<Rightarrow> emitted (calls s))"

definition closes :: "'u Room \<Rightarrow> nat" where
  "closes w = (case socket w of None \<Rightarrow> 0 | Some s \<Rightarrow> disconnects (calls s))"

text \<open>
  A whole scrub gesture: mouse down, one change event for each value of \<open>vs\<close>, mouse up
  at \<open>v\<close>.
\<close>

definition seekGesture :: "number list \<Rightarrow> number \<Rightarrow> 'u Room \<Rightarrow> 'u Room" where
  "seekGesture vs v w = handleSeekMouseUp v (fold handleSeekChange vs (handleSeekMouseDown w))"

text \<open>\<open>componentWillUnmount\<close> called twice in a row; an exception of the first call ends the run.\<close>

definition teardown_twice :: "'u Room \<Rightarrow> error + 'u Room" where
  "teardown_twice w =
     (case componentWillUnmount w of Inl e \<Rightarrow> Inl e | Inr w1 \<Rightarrow> componentWillUnmount w1)"

text \<open>The transport reports the connection: socket.io sets \<open>connected\<close>.\<close>

definition on_connect :: "'u Room \<Rightarrow> 'u Room" where
  "on_connect w = w\<lparr>socket := map_option (connected_flag_update (\<lambda>_. True)) (socket w)\<rparr>"

subsection \<open>Sample rooms\<close>

text \<open>
  Concrete components for the evaluations below. \<open>mounted\<close> is the room \<open>r1\<close> after the
  constructor, with a player bound, and \<open>componentDidMount\<close>; its socket has not connected
  yet. \<open>room_r1\<close> is the same room once the socket has connected. The others are
  \<open>room_r1\<close> at some point of playback; a position that is a double is written \<open>Fin\<close>,
  another decimal is rounded by \<open>fl\<close>.
\<close>

definition mounted :: "string Room" where
  "mounted =
     componentDidMount False ((constructor ''r1'' ''loading...'')\<lparr>player := Some \<lparr>seeks = []\<rparr>\<rparr>)"

definition room_r1 :: "string Room" where
  "room_r1 = on_connect mounted"

definition at_ten_percent :: "string Room" where
  "at_ten_percent =
     room_r1\<lparr>state := (state room_r1)\<lparr>played := fl (1 / 10), duration := Fin 100\<rparr>\<rparr>"

definition drifted :: "string Room" where
  "drifted = room_r1\<lparr>state := (state room_r1)\<lparr>played := Fin (1 / 2), duration := Fin 100\<rparr>\<rparr>"

definition far_ahead :: "string Room" where
  "far_ahead =
     room_r1\<lparr>state := (state room_r1)\<lparr>played := fl (9 / 10), duration := Fin 3600\<rparr>\<rparr>"

text \<open>
  A room at the edge of the drift test: against the remote position \<open>remote_boundary\<close>
  the exact product is above 2 and the product in doubles is 2.
\<close>

definition at_boundary :: "string Room" where
  "at_boundary =
     room_r1\<lparr>state := (state room_r1)\<lparr>played := Fin (1210245519433057 / 9007199254740992),
       duration := Fin (3157896721629083 / 1125899906842624)\<rparr>\<rparr>"

definition remote_boundary :: number where
  "remote_boundary = Fin (954125565472927 / 1125899906842624)"

definition scrubbing :: "string Room" where
  "scrubbing = room_r1\<lparr>state := (state room_r1)\<lparr>played := fl (1 / 10),
     loaded := fl (1 / 5), duration := Fin 100, seeking := True\<rparr>\<rparr>"

text \<open>A capability check for the evaluations: it accepts the links to youtu.be only.\<close>

definition canPlay_youtube :: "string \<Rightarrow> bool" where
  "canPlay_youtube u = (take 17 u = ''https://youtu.be/'')"

section \<open>Properties\<close>

subsection \<open>Rounding to a double\<close>

lemma round_half_even_bounds:
  "\<lfloor>x\<rfloor> \<le> round_half_even x \<and> round_half_even x \<le> \<lfloor>x\<rfloor> + 1"
  by (simp add: round_half_even_def Let_def)

lemma round_half_even_nonneg: "0 \<le> x \<Longrightarrow> 0 \<le> round_half_even x"
proof -
  assume "0 \<le> x"
  then have "0 \<le> \<lfloor>x\<rfloor>" by simp
  with round_half_even_bounds [of x] show ?thesis by linarith
qed

lemma round_half_even_near:
  assumes "\<bar>x - of_int m\<bar> < 1 / 2"
  shows "round_half_even x = m"
proof (cases "of_int m \<le> x")
  case True
  with assms have "of_int m \<le> x \<and> x < of_int m + 1" by linarith
  then have f: "\<lfloor>x\<rfloor> = m" by (simp add: floor_unique)
  with assms True show ?thesis by (simp add: round_half_even_def Let_def)
next
  case False
  with assms have a: "of_int (m - 1) \<le> x" and b: "x < of_int (m - 1) + 1"
    by (simp_all; linarith)+
  have f: "\<lfloor>x\<rfloor> = m - 1" by (rule floor_unique [OF a b])
  from assms False have "1 / 2 < x - of_int (m - 1)" by (simp; linarith)
  with f show ?thesis by (simp add: round_half_even_def Let_def)
qed

lemma round_half_even_tie_down:
  assumes "x = of_int m + 1 / 2" and "even m"
  shows "round_half_even x = m"
proof -
  have "of_int m \<le> x \<and> x < of_int m + 1" using assms(1) by simp
  then have f: "\<lfloor>x\<rfloor> = m" by (simp add: floor_unique)
  with assms show ?thesis by (simp add: round_half_even_def Let_def)
qed

lemma round_half_even_tie_up:
  assumes "x = of_int m - 1 / 2" and "even m"
  shows "round_half_even x = m"
proof -
  have a: "of_int (m - 1) \<le> x" and b: "x < of_int (m - 1) + 1"
    using assms(1) by simp_all
  have f: "\<lfloor>x\<rfloor> = m - 1" by (rule floor_unique [OF a b])
  have "x - of_int (m - 1) = 1 / 2" using assms(1) by simp
  with f assms(2) show ?thesis by (simp add: round_half_even_def Let_def)
qed

lemma bitlen_unique:
  fixes N :: int and E :: nat
  assumes "2 ^ E \<le> N" and "N < 2 ^ Suc E"
  shows "bitlen N = int E + 1"
proof -
  have "(0::int) < 2 ^ E" by simp
  with assms(1) have pos: "0 < N" by linarith
  from bitlen_bounds [OF pos]
  have b1: "2 ^ nat (bitlen N - 1) \<le> N" and b2: "N < 2 ^ nat (bitlen N)" by simp_all
  have "(2::int) ^ nat (bitlen N - 1) < 2 ^ Suc E" using b1 assms(2) by linarith
  then have l1: "nat (bitlen N - 1) < Suc E"
    by (simp only: power_strict_increasing_iff [of 2] one_less_numeral_iff semiring_norm)
  have "(2::int) ^ E < 2 ^ nat (bitlen N)" using b2 assms(1) by linarith
  then have l2: "E < nat (bitlen N)"
    by (simp only: power_strict_increasing_iff [of 2] one_less_numeral_iff semiring_norm)
  from l1 l2 show ?thesis by linarith
qed

text \<open>
  The value of \<open>fl\<close> on a normal number, from the position \<open>E\<close> of its leading bit (in
  units of \<open>2^-1074\<close>) and the rounded mantissa \<open>m\<close>.
\<close>

lemma fl_core:
  fixes q :: rat and E :: nat
  assumes q0: "q \<noteq> 0"
    and lo: "2 ^ E \<le> \<bar>q\<bar> * 2 ^ 1074"
    and hi: "\<bar>q\<bar> * 2 ^ 1074 < 2 ^ Suc E"
    and E52: "52 \<le> E" and Emax: "E \<le> 2096"
    and m: "round_half_even (\<bar>q\<bar> * 2 ^ 1074 / 2 ^ (E - 52)) = m"
  shows "fl q = Fin (sgn q * (of_int m * 2 ^ (E - 52) / 2 ^ 1074))"
proof -
  let ?a = "\<bar>q\<bar> * 2 ^ 1074"
  let ?N = "\<lfloor>?a\<rfloor>"
  have "of_int (2 ^ E) \<le> ?a" using lo by simp
  then have N1: "2 ^ E \<le> ?N" by (simp only: le_floor_iff)
  have "?a < of_int (2 ^ Suc E)" using hi by simp
  then have N2: "?N < 2 ^ Suc E" by (simp only: floor_less_iff)
  have bl: "bitlen ?N = int E + 1" by (rule bitlen_unique [OF N1 N2])
  have e: "max (bitlen ?N - 1) 52 = int E" using bl E52 by simp
  have u: "(2::int) ^ nat (int E - 52) = 2 ^ (E - 52)"
    using E52 by (simp add: nat_diff_distrib')
  let ?x = "?a / 2 ^ (E - 52)"
  have split: "(2::rat) ^ Suc E = 2 ^ 53 * 2 ^ (E - 52)"
  proof -
    have "Suc E = 53 + (E - 52)" using E52 by simp
    then show ?thesis by (metis power_add)
  qed
  have "?x < 2 ^ 53"
    using hi unfolding split by (simp add: field_simps)
  then have "?x < of_int (2 ^ 53)" by simp
  then have "\<lfloor>?x\<rfloor> < 2 ^ 53" by (simp only: floor_less_iff)
  with round_half_even_bounds [of ?x] m have mle: "m \<le> 2 ^ 53" by linarith
  have "of_int m * (2::rat) ^ (E - 52) \<le> 2 ^ 53 * 2 ^ (E - 52)"
  proof -
    have "(of_int m :: rat) \<le> of_int (2 ^ 53)" using mle by (simp only: of_int_le_iff)
    then have "(of_int m :: rat) \<le> 2 ^ 53" by simp
    then show ?thesis by (simp add: mult_right_mono)
  qed
  also have "\<dots> = 2 ^ Suc E" by (simp only: split)
  also have "\<dots> \<le> (2::rat) ^ 2097"
    using Emax by (intro power_increasing) simp_all
  finally have r1: "of_int m * (2::rat) ^ (E - 52) \<le> 2 ^ 2097" .
  have "of_int m * (2::rat) ^ (E - 52) / 2 ^ 1074 \<le> 2 ^ 2097 / 2 ^ 1074"
    using r1 by (simp add: divide_right_mono)
  also have "\<dots> = (2::rat) ^ 1023"
  proof -
    have "(2::rat) ^ 2097 = 2 ^ 1023 * 2 ^ 1074" by (simp only: power_add [symmetric]) simp
    then show ?thesis by simp
  qed
  also have "\<dots> < (2::rat) ^ 1024" by (intro power_strict_increasing) simp_all
  finally have nov: "\<not> 2 ^ 1024 \<le> of_int m * (2::rat) ^ (E - 52) / 2 ^ 1074" by simp
  show ?thesis
    unfolding fl_def Let_def e u using q0 m nov
    by (simp del: power_Suc)
qed

text \<open>The same for a number in \<open>[2^-j, 2^(1-j))\<close> and for one in \<open>[2^k, 2^(k+1))\<close>.\<close>

lemma fl_small:
  fixes q :: rat and j :: nat
  assumes q0: "q \<noteq> 0" and j: "j \<le> 1022"
    and lo: "1 \<le> \<bar>q\<bar> * 2 ^ j" and hi: "\<bar>q\<bar> * 2 ^ j < 2"
    and m: "round_half_even (\<bar>q\<bar> * 2 ^ (j + 52)) = m"
    and r: "r = sgn q * (of_int m / 2 ^ (j + 52))"
  shows "fl q = Fin r"
proof -
  let ?E = "1074 - j"
  have p1: "(2::rat) ^ 1074 = 2 ^ ?E * 2 ^ j"
    using j by (simp only: power_add [symmetric]) simp
  have p2: "(2::rat) ^ 1074 = 2 ^ (?E - 52) * 2 ^ (j + 52)"
    using j by (simp only: power_add [symmetric]) simp
  have lo': "2 ^ ?E \<le> \<bar>q\<bar> * 2 ^ 1074"
  proof -
    have "(2::rat) ^ ?E * 1 \<le> 2 ^ ?E * (\<bar>q\<bar> * 2 ^ j)"
      using lo by (intro mult_left_mono) simp_all
    then show ?thesis by (simp only: p1) (simp add: mult_ac)
  qed
  have hi': "\<bar>q\<bar> * 2 ^ 1074 < 2 ^ Suc ?E"
  proof -
    have "(2::rat) ^ ?E * (\<bar>q\<bar> * 2 ^ j) < 2 ^ ?E * 2"
      using hi by (intro mult_strict_left_mono) simp_all
    then show ?thesis by (simp only: p1) (simp add: mult_ac)
  qed
  have x: "\<bar>q\<bar> * 2 ^ 1074 / 2 ^ (?E - 52) = \<bar>q\<bar> * 2 ^ (j + 52)"
    by (simp only: p2) simp
  have m': "round_half_even (\<bar>q\<bar> * 2 ^ 1074 / 2 ^ (?E - 52)) = m"
    by (simp only: x m)
  have res: "of_int m * (2::rat) ^ (?E - 52) / 2 ^ 1074 = of_int m / 2 ^ (j + 52)"
    by (simp only: p2) simp
  have "fl q = Fin (sgn q * (of_int m * 2 ^ (?E - 52) / 2 ^ 1074))"
    using j by (intro fl_core [OF q0 lo' hi' _ _ m']) simp_all
  then show ?thesis by (simp only: res r)
qed

lemma fl_big:
  fixes q :: rat and k :: nat
  assumes q0: "q \<noteq> 0" and k: "k \<le> 52"
    and lo: "2 ^ k \<le> \<bar>q\<bar>" and hi: "\<bar>q\<bar> < 2 ^ Suc k"
    and m: "round_half_even (\<bar>q\<bar> * 2 ^ (52 - k)) = m"
    and r: "r = sgn q * (of_int m / 2 ^ (52 - k))"
  shows "fl q = Fin r"
proof -
  let ?E = "1074 + k"
  have p1: "(2::rat) ^ ?E = 2 ^ k * 2 ^ 1074"
    by (simp only: power_add [symmetric]) (simp add: add.commute)
  have p2: "(2::rat) ^ 1074 = 2 ^ (?E - 52) * 2 ^ (52 - k)"
    using k by (simp only: power_add [symmetric]) simp
  have lo': "2 ^ ?E \<le> \<bar>q\<bar> * 2 ^ 1074"
    using lo by (simp only: p1) (simp add: mult_right_mono)
  have hi': "\<bar>q\<bar> * 2 ^ 1074 < 2 ^ Suc ?E"
  proof -
    have "\<bar>q\<bar> * 2 ^ 1074 < 2 ^ Suc k * 2 ^ 1074"
      using hi by (intro mult_strict_right_mono) simp_all
    also have "\<dots> = (2::rat) ^ Suc ?E"
      by (simp only: power_add [symmetric]) simp
    finally show ?thesis .
  qed
  have x: "\<bar>q\<bar> * 2 ^ 1074 / 2 ^ (?E - 52) = \<bar>q\<bar> * 2 ^ (52 - k)"
    by (simp only: p2) simp
  have m': "round_half_even (\<bar>q\<bar> * 2 ^ 1074 / 2 ^ (?E - 52)) = m"
    by (simp only: x m)
  have res: "of_int m * (2::rat) ^ (?E - 52) / 2 ^ 1074 = of_int m / 2 ^ (52 - k)"
    by (simp only: p2) simp
  have "fl q = Fin (sgn q * (of_int m * 2 ^ (?E - 52) / 2 ^ 1074))"
    using k by (intro fl_core [OF q0 lo' hi' _ _ m']) simp_all
  then show ?thesis by (simp only: res r)
qed

text \<open>Rounding keeps the sign: a product that is not positive is not above 2.\<close>

lemma fl_nonpos:
  assumes "q \<le> 0"
  shows "\<not> num_gt (fl q) (Fin 2)"
proof (cases "q = 0")
  case True
  then show ?thesis by (simp add: fl_def)
next
  case False
  with assms have neg: "q < 0" by simp
  define a where "a = \<bar>q\<bar> * 2 ^ 1074"
  define u where "u = (2::int) ^ nat (max (bitlen \<lfloor>a\<rfloor> - 1) 52 - 52)"
  define m where "m = round_half_even (a / of_int u)"
  define r where "r = (of_int (m * u) :: rat) / 2 ^ 1074"
  have "0 \<le> a" by (simp add: a_def)
  moreover have upos: "0 < u" by (simp add: u_def)
  ultimately have "0 \<le> a / of_int u" by simp
  then have "0 \<le> m" unfolding m_def by (rule round_half_even_nonneg)
  with upos have "0 \<le> m * u" by simp
  then have "(0::rat) \<le> of_int (m * u)" by (simp only: of_int_0_le_iff)
  then have r0: "0 \<le> r" by (simp add: r_def)
  have "fl q = (if 2 ^ 1024 \<le> r then NInf else Fin (sgn q * r))"
    using False neg by (simp add: fl_def Let_def a_def u_def m_def r_def)
  moreover have "sgn q * r \<le> 0" using neg r0 by (simp add: sgn_if)
  ultimately show ?thesis by simp
qed

lemma gate_needs_duration:
  assumes "num_gt (num_mul (Math_abs x) d) (Fin 2)"
  shows "num_gt d (Fin 0)"
proof (cases d)
  case (Fin b)
  show ?thesis
  proof (cases x)
    case (Fin a)
    have "0 < b"
    proof (rule ccontr)
      assume "\<not> 0 < b"
      then have "\<bar>a\<bar> * b \<le> 0" by (simp add: mult_nonneg_nonpos)
      then have "\<not> num_gt (fl (\<bar>a\<bar> * b)) (Fin 2)" by (rule fl_nonpos)
      with assms \<open>d = Fin b\<close> \<open>x = Fin a\<close> show False by simp
    qed
    with \<open>d = Fin b\<close> show ?thesis by simp
  next
    case PInf
    with assms \<open>d = Fin b\<close> show ?thesis by (simp split: if_splits)
  next
    case NInf
    with assms \<open>d = Fin b\<close> show ?thesis by (simp split: if_splits)
  next
    case NaN
    with assms show ?thesis by simp
  qed
next
  case PInf
  then show ?thesis by simp
next
  case NInf
  with assms show ?thesis by (cases x) (simp_all split: if_splits)
next
  case NaN
  with assms show ?thesis by (cases x) simp_all
qed

text \<open>The doubles of two literals, and the drift products used below.\<close>

lemma fl_thirteen_hundredths: "fl (13 / 100) = Fin (1170935903116329 / 9007199254740992)"
  by (rule fl_small [where j = 3 and m = 4683743612465316]; (rule round_half_even_near)?;
      simp add: sgn_if)

lemma fl_eleven_and_a_half_hundredths:
  "fl (23 / 200) = Fin (8286623314361713 / 72057594037927936)"
  by (rule fl_small [where j = 4 and m = 8286623314361713]; (rule round_half_even_near)?;
      simp add: sgn_if)

lemma gate_ten_thirteen:
  "num_mul (Math_abs (num_sub (fl (1 / 10))
      (fl (13 / 100))))
     (Fin 100) = Fin 3"
proof -
  have a: "fl (1 / 10) =
      Fin (3602879701896397 / 36028797018963968)"
    by (rule fl_small [where j = 4 and m = 7205759403792794];
        (rule round_half_even_near)?; simp add: sgn_if)
  have p: "fl (13 / 100) =
      Fin (1170935903116329 / 9007199254740992)"
    by (rule fl_small [where j = 3 and m = 4683743612465316];
        (rule round_half_even_near)?; simp add: sgn_if)
  have s: "fl ((3602879701896397 / 36028797018963968)
        - (1170935903116329 / 9007199254740992)) =
      Fin (- (1080863910568919 / 36028797018963968))"
    by (rule fl_small [where j = 6 and m = 8646911284551352];
        (rule round_half_even_near)?; simp add: sgn_if)
  have t: "fl (\<bar>(- (1080863910568919 / 36028797018963968))\<bar>
        * 100) =
      Fin 3"
    by (rule fl_big [where k = 1 and m = 6755399441055744];
        (rule round_half_even_near)?; simp add: sgn_if)
  show ?thesis
    by (simp only: a p num_sub.simps s Math_abs.simps t num_mul.simps)
qed

lemma gate_ten_eleven_half:
  "num_mul (Math_abs (num_sub (fl (1 / 10))
      (fl (23 / 200))))
     (Fin 100) = Fin (3 / 2)"
proof -
  have a: "fl (1 / 10) =
      Fin (3602879701896397 / 36028797018963968)"
    by (rule fl_small [where j = 4 and m = 7205759403792794];
        (rule round_half_even_near)?; simp add: sgn_if)
  have p: "fl (23 / 200) =
      Fin (8286623314361713 / 72057594037927936)"
    by (rule fl_small [where j = 4 and m = 8286623314361713];
        (rule round_half_even_near)?; simp add: sgn_if)
  have s: "fl ((3602879701896397 / 36028797018963968)
        - (8286623314361713 / 72057594037927936)) =
      Fin (- (1080863910568919 / 72057594037927936))"
    by (rule fl_small [where j = 7 and m = 8646911284551352];
        (rule round_half_even_near)?; simp add: sgn_if)
  have t: "fl (\<bar>(- (1080863910568919 / 72057594037927936))\<bar>
        * 100) =
      Fin (3 / 2)"
    by (rule fl_small [where j = 0 and m = 6755399441055744];
        (rule round_half_even_near)?; simp add: sgn_if)
  show ?thesis
    by (simp only: a p num_sub.simps s Math_abs.simps t num_mul.simps)
qed

lemma gate_ten_half:
  "num_mul (Math_abs (num_sub (fl (1 / 10))
      (Fin (1 / 2))))
     (Fin 100) = Fin 40"
proof -
  have a: "fl (1 / 10) =
      Fin (3602879701896397 / 36028797018963968)"
    by (rule fl_small [where j = 4 and m = 7205759403792794];
        (rule round_half_even_near)?; simp add: sgn_if)
  have s: "fl ((3602879701896397 / 36028797018963968)
        - (1 / 2)) =
      Fin (- (3602879701896397 / 9007199254740992))"
    by (rule fl_small [where j = 2 and m = 7205759403792794];
        (rule round_half_even_tie_up)?; simp add: sgn_if)
  have t: "fl (\<bar>(- (3602879701896397 / 9007199254740992))\<bar>
        * 100) =
      Fin 40"
    by (rule fl_big [where k = 5 and m = 5629499534213120];
        (rule round_half_even_near)?; simp add: sgn_if)
  show ?thesis
    by (simp only: a num_sub.simps s Math_abs.simps t num_mul.simps)
qed

lemma gate_half_zero:
  "num_mul (Math_abs (num_sub (Fin (1 / 2))
      (Fin 0)))
     (Fin 100) = Fin 50"
proof -
  have s: "fl ((1 / 2)
        - 0) =
      Fin (1 / 2)"
    by (rule fl_small [where j = 1 and m = 4503599627370496];
        (rule round_half_even_near)?; simp add: sgn_if)
  have t: "fl (\<bar>(1 / 2)\<bar>
        * 100) =
      Fin 50"
    by (rule fl_big [where k = 5 and m = 7036874417766400];
        (rule round_half_even_near)?; simp add: sgn_if)
  show ?thesis
    by (simp only:  num_sub.simps s Math_abs.simps t num_mul.simps)
qed

lemma gate_boundary:
  "num_mul (Math_abs (num_sub (Fin (1210245519433057 / 9007199254740992))
      (Fin (954125565472927 / 1125899906842624))))
     (Fin (3157896721629083 / 1125899906842624)) = Fin 2"
proof -
  have s: "fl ((1210245519433057 / 9007199254740992)
        - (954125565472927 / 1125899906842624)) =
      Fin (- (6422759004350359 / 9007199254740992))"
    by (rule fl_small [where j = 1 and m = 6422759004350359];
        (rule round_half_even_near)?; simp add: sgn_if)
  have t: "fl (\<bar>(- (6422759004350359 / 9007199254740992))\<bar>
        * (3157896721629083 / 1125899906842624)) =
      Fin 2"
    by (rule fl_big [where k = 1 and m = 4503599627370496];
        (rule round_half_even_near)?; simp add: sgn_if)
  show ?thesis
    by (simp only:  num_sub.simps s Math_abs.simps t num_mul.simps)
qed

subsection \<open>Auxiliary facts about the component\<close>

lemma overwrite_twice: "overwrite d (overwrite d x) = overwrite d x"
  by (cases d) simp_all

lemma overwrite_case: "overwrite d x = (case d of None \<Rightarrow> x | Some v \<Rightarrow> v)"
  by (cases d) simp_all

lemma emitted_snoc: "emitted (cs @ [Emit ev d]) = emitted cs @ [(ev, d)]"
  by (induction cs rule: emitted.induct) simp_all

lemma disconnects_snoc: "disconnects (cs @ [Disconnect]) = Suc (disconnects cs)"
  by (induction cs rule: disconnects.induct) simp_all

lemma seekTo_changes: "seekTo a ty p \<noteq> p"
proof
  assume "seekTo a ty p = p"
  then have "seeks (seekTo a ty p) = seeks p" by simp
  then show False by (simp add: seekTo_def)
qed

lemma state_updateState: "state (updateState d w) = setState d (state w)"
  by (simp add: updateState_def Let_def split: option.splits)

lemma socket_updateState:
  "socket (updateState d w) = map_option (socket_emit ''update'' d) (socket w)"
  by (simp add: updateState_def Let_def split: option.splits)

lemma player_updateState: "player (updateState d w) = player w"
  by (simp add: updateState_def Let_def split: option.splits)

lemma published_updateState:
  "published (updateState d w) =
     (if socket w = None then [] else published w @ [(''update'', d)])"
  by (auto simp add: published_def socket_updateState socket_emit_def emitted_snoc
      split: option.splits)

lemma state_onStatus: "state (onStatus data w) = setState data (state w)"
  by (simp add: onStatus_def Let_def player_seekTo_def split: option.splits)

lemma socket_onStatus: "socket (onStatus data w) = socket w"
  by (simp add: onStatus_def Let_def player_seekTo_def split: option.splits)

lemma player_onStatus:
  "player (onStatus data w) =
     (case d_played data of
        None \<Rightarrow> player w
      | Some p \<Rightarrow>
          if truthy p \<and>
             num_gt (num_mul (Math_abs (num_sub (played (state w)) p)) (duration (state w)))
               (Fin 2)
          then map_option (seekTo p (Some Fraction)) (player w)
          else player w)"
  by (simp add: onStatus_def Let_def player_seekTo_def split: option.splits)

lemma socket_fold_none:
  "(socket (fold handleSeekChange vs w) = None) = (socket w = None)"
  by (induction vs arbitrary: w) (simp_all add: handleSeekChange_def socket_updateState)

lemma published_fold:
  "socket w \<noteq> None \<Longrightarrow>
   published (fold handleSeekChange vs w) =
     published w @ map (\<lambda>x. (''update'', no_change\<lparr>d_played := Some x\<rparr>)) vs"
proof (induction vs arbitrary: w)
  case Nil
  then show ?case by simp
next
  case (Cons v vs)
  have "socket (handleSeekChange v w) \<noteq> None"
    using Cons.prems by (simp add: handleSeekChange_def socket_updateState)
  from Cons.IH[OF this] Cons.prems show ?case
    by (simp add: handleSeekChange_def published_updateState)
qed

lemma room_r1_player: "player room_r1 = Some \<lparr>seeks = []\<rparr>"
  by (simp add: room_r1_def mounted_def on_connect_def componentDidMount_def
      constructor_def)

subsection \<open>The drift gate of the status handler\<close>

text \<open>
  C1 as stated fails, in two ways.

  In \<open>drifted\<close> the local position is 0.5 of a medium of 100 seconds. An inbound delta
  with \<open>played = 0\<close> is 50 seconds away and the duration is positive, yet the handler does
  not seek: \<open>if (data.played)\<close> is false for 0.

  In \<open>at_boundary\<close>, against the non-zero remote position \<open>remote_boundary\<close>, the exact
  product of the distance and the duration is above 2 and the duration is positive, yet the
  handler does not seek: line 93 computes the product in doubles, where it is 2.
\<close>

theorem drift_gate_zero_counterexample:
  "played (state drifted) = Fin (1 / 2) \<and> duration (state drifted) = Fin 100 \<and>
   num_gt (duration (state drifted)) (Fin 0) \<and>
   num_gt (num_mul (Math_abs (num_sub (played (state drifted)) (Fin 0)))
     (duration (state drifted))) (Fin 2) \<and>
   player (onStatus (no_change\<lparr>d_played := Some (Fin 0)\<rparr>) drifted) = player drifted \<and>
   played (state at_boundary) = Fin (1210245519433057 / 9007199254740992) \<and>
   duration (state at_boundary) = Fin (3157896721629083 / 1125899906842624) \<and>
   remote_boundary = Fin (954125565472927 / 1125899906842624) \<and>
   (2::rat) < \<bar>1210245519433057 / 9007199254740992 - 954125565472927 / 1125899906842624\<bar>
                * (3157896721629083 / 1125899906842624) \<and>
   player (onStatus (no_change\<lparr>d_played := Some remote_boundary\<rparr>) at_boundary)
     = player at_boundary"
proof -
  have st: "played (state drifted) = Fin (1 / 2)" "duration (state drifted) = Fin 100"
    by (simp_all add: drifted_def)
  have g: "num_mul (Math_abs (num_sub (played (state drifted)) (Fin 0)))
      (duration (state drifted)) = Fin 50"
    by (simp only: st gate_half_zero)
  have zero: "player (onStatus (no_change\<lparr>d_played := Some (Fin 0)\<rparr>) drifted) = player drifted"
    by (simp add: player_onStatus no_change_def)
  have sb: "played (state at_boundary) = Fin (1210245519433057 / 9007199254740992)"
    "duration (state at_boundary) = Fin (3157896721629083 / 1125899906842624)"
    by (simp_all add: at_boundary_def)
  have gb: "num_mul (Math_abs (num_sub (played (state at_boundary)) remote_boundary))
      (duration (state at_boundary)) = Fin 2"
    by (simp only: sb remote_boundary_def gate_boundary)
  have edge: "player (onStatus (no_change\<lparr>d_played := Some remote_boundary\<rparr>) at_boundary)
      = player at_boundary"
    by (simp add: player_onStatus no_change_def gb)
  have exact: "(2::rat) < \<bar>1210245519433057 / 9007199254740992
      - 954125565472927 / 1125899906842624\<bar> * (3157896721629083 / 1125899906842624)"
    by simp
  from st g zero sb edge exact show ?thesis
    by (simp add: remote_boundary_def)
qed

text \<open>
  C1, amended. For an inbound status delta whose \<open>played\<close> is a number \<open>p\<close> other than
  0 (and not NaN), with a player mounted, the handler seeks the player to the fraction \<open>p\<close>
  if and only if the duration is positive and \<open>|played - p| * duration > 2\<close>, the difference
  and the product being computed in doubles as line 93 does; otherwise the player is left as
  it is. (A seek is visible: it adds a call to the player.)
\<close>

theorem drift_gate:
  assumes "player w = Some pl" and "d_played data = Some p" and "truthy p"
  shows "player (onStatus data w) =
           (if num_gt (duration (state w)) (Fin 0) \<and>
               num_gt (num_mul (Math_abs (num_sub (played (state w)) p)) (duration (state w)))
                 (Fin 2)
            then Some (seekTo p (Some Fraction) pl) else Some pl) \<and>
         seekTo p (Some Fraction) pl \<noteq> pl"
proof -
  have "num_gt (num_mul (Math_abs (num_sub (played (state w)) p)) (duration (state w))) (Fin 2)
      \<Longrightarrow> num_gt (duration (state w)) (Fin 0)"
    by (rule gate_needs_duration)
  then show ?thesis
    using assms by (auto simp add: player_onStatus seekTo_changes)
qed

text \<open>
  The two examples of the specification: at 0.10 of 100 seconds, a remote 0.13 (3 seconds
  away) seeks, a remote 0.115 (1.5 seconds away) does not.
\<close>

theorem drift_gate_witness:
  "player (onStatus (no_change\<lparr>d_played := Some (fl (13 / 100))\<rparr>) at_ten_percent)
     = Some \<lparr>seeks = [(fl (13 / 100), Some Fraction)]\<rparr> \<and>
   player (onStatus (no_change\<lparr>d_played := Some (fl (23 / 200))\<rparr>) at_ten_percent)
     = Some \<lparr>seeks = []\<rparr>"
proof -
  have pl: "player at_ten_percent = Some \<lparr>seeks = []\<rparr>"
    by (simp add: at_ten_percent_def room_r1_player)
  have st: "played (state at_ten_percent) = fl (1 / 10)"
    "duration (state at_ten_percent) = Fin 100"
    by (simp_all add: at_ten_percent_def)
  have g1: "num_mul (Math_abs (num_sub (played (state at_ten_percent)) (fl (13 / 100))))
      (duration (state at_ten_percent)) = Fin 3"
    by (simp only: st gate_ten_thirteen)
  have g2: "num_mul (Math_abs (num_sub (played (state at_ten_percent)) (fl (23 / 200))))
      (duration (state at_ten_percent)) = Fin (3 / 2)"
    by (simp only: st gate_ten_eleven_half)
  have t1: "truthy (fl (13 / 100))" by (simp add: fl_thirteen_hundredths)
  have t2: "truthy (fl (23 / 200))" by (simp add: fl_eleven_and_a_half_hundredths)
  have d1: "d_played (no_change\<lparr>d_played := Some (fl (13 / 100))\<rparr> :: string Delta)
      = Some (fl (13 / 100))"
    by simp
  have d2: "d_played (no_change\<lparr>d_played := Some (fl (23 / 200))\<rparr> :: string Delta)
      = Some (fl (23 / 200))"
    by simp
  have dpos: "num_gt (duration (state at_ten_percent)) (Fin 0)"
    by (simp add: st)
  from drift_gate [OF pl d1 t1] drift_gate [OF pl d2 t2] show ?thesis
    by (simp add: g1 g2 dpos seekTo_def)
qed

subsection \<open>Inbound deltas during a scrub\<close>

text \<open>
  C2 says that while \<open>seeking\<close> is true an inbound delta leaves \<open>played\<close> and
  \<open>loaded\<close> alone and causes no seek. The status handler never reads \<open>seeking\<close>: in
  \<open>scrubbing\<close> (seeking, at 0.1 of 100 seconds, 0.2 loaded) the delta
  \<open>{played: 0.5, loaded: 0.6, volume: 0.8}\<close> overwrites all three fields and seeks the player
  to 0.5.
\<close>

theorem status_while_seeking:
  "seeking (state scrubbing) \<and> played (state scrubbing) = fl (1 / 10) \<and>
   loaded (state scrubbing) = fl (1 / 5) \<and>
   played (state (onStatus (no_change\<lparr>d_played := Some (Fin (1 / 2)),
       d_loaded := Some (fl (3 / 5)), d_volume := Some (fl (4 / 5))\<rparr>) scrubbing))
     = Fin (1 / 2) \<and>
   loaded (state (onStatus (no_change\<lparr>d_played := Some (Fin (1 / 2)),
       d_loaded := Some (fl (3 / 5)), d_volume := Some (fl (4 / 5))\<rparr>) scrubbing))
     = fl (3 / 5) \<and>
   volume (state (onStatus (no_change\<lparr>d_played := Some (Fin (1 / 2)),
       d_loaded := Some (fl (3 / 5)), d_volume := Some (fl (4 / 5))\<rparr>) scrubbing))
     = fl (4 / 5) \<and>
   player (onStatus (no_change\<lparr>d_played := Some (Fin (1 / 2)),
       d_loaded := Some (fl (3 / 5)), d_volume := Some (fl (4 / 5))\<rparr>) scrubbing)
     = Some \<lparr>seeks = [(Fin (1 / 2), Some Fraction)]\<rparr>"
proof -
  have st: "played (state scrubbing) = fl (1 / 10)" "duration (state scrubbing) = Fin 100"
    by (simp_all add: scrubbing_def)
  have before: "seeking (state scrubbing)" "loaded (state scrubbing) = fl (1 / 5)"
    by (simp_all add: scrubbing_def)
  have pl: "player scrubbing = Some \<lparr>seeks = []\<rparr>"
    by (simp add: scrubbing_def room_r1_player)
  have g: "num_mul (Math_abs (num_sub (played (state scrubbing)) (Fin (1 / 2))))
      (duration (state scrubbing)) = Fin 40"
    by (simp only: st gate_ten_half)
  have seek: "player (onStatus (no_change\<lparr>d_played := Some (Fin (1 / 2)),
       d_loaded := Some (fl (3 / 5)), d_volume := Some (fl (4 / 5))\<rparr>) scrubbing)
     = Some \<lparr>seeks = [(Fin (1 / 2), Some Fraction)]\<rparr>"
    by (simp add: player_onStatus g pl seekTo_def)
  have merged: "state (onStatus (no_change\<lparr>d_played := Some (Fin (1 / 2)),
       d_loaded := Some (fl (3 / 5)), d_volume := Some (fl (4 / 5))\<rparr>) scrubbing)
     = setState (no_change\<lparr>d_played := Some (Fin (1 / 2)),
       d_loaded := Some (fl (3 / 5)), d_volume := Some (fl (4 / 5))\<rparr>) (state scrubbing)"
    by (rule state_onStatus)
  from st(1) before seek show ?thesis
    by (simp add: merged setState_def)
qed

subsection \<open>The scrub gesture\<close>

text \<open>
  C3 as stated fails. In \<open>room_r1\<close>, whose socket has sent the initial delta only, the
  gesture down, change to 0.5, up at 0.5 sends three deltas: \<open>{seeking: true}\<close>,
  \<open>{played: 0.5}\<close> at the change event, and \<open>{seeking: false}\<close>, which carries no
  \<open>played\<close>.
\<close>

theorem seek_gesture_counterexample:
  "published room_r1 = [(''update'', initial_update (state room_r1))] \<and>
   published (handleSeekChange (Fin (1 / 2)) (handleSeekMouseDown room_r1)) =
     [(''update'', initial_update (state room_r1)),
      (''update'', no_change\<lparr>d_seeking := Some True\<rparr>),
      (''update'', no_change\<lparr>d_played := Some (Fin (1 / 2))\<rparr>)] \<and>
   published (seekGesture [Fin (1 / 2)] (Fin (1 / 2)) room_r1) =
     [(''update'', initial_update (state room_r1)),
      (''update'', no_change\<lparr>d_seeking := Some True\<rparr>),
      (''update'', no_change\<lparr>d_played := Some (Fin (1 / 2))\<rparr>),
      (''update'', no_change\<lparr>d_seeking := Some False\<rparr>)]"
  by (simp add: seekGesture_def handleSeekMouseUp_def handleSeekChange_def
      handleSeekMouseDown_def player_seekTo_def published_def socket_updateState
      socket_emit_def room_r1_def mounted_def on_connect_def componentDidMount_def
      constructor_def socketIOClient_def socket_on_def)

text \<open>
  C3, amended. The mouse-down merges \<open>{seeking: true}\<close> into the state and, when there is
  a socket, sends that delta. A change event merges \<open>{played: v}\<close>, leaves the player alone
  and sends that delta. The mouse-up merges and sends \<open>{seeking: false}\<close>, without
  \<open>played\<close>, and seeks the player to \<open>v\<close>. A gesture with \<open>n\<close> change events therefore
  sends \<open>n + 2\<close> deltas: \<open>{seeking: true}\<close>, one \<open>{played: x}\<close> for each change, and
  \<open>{seeking: false}\<close>.
\<close>

theorem seek_gesture_publishes:
  "state (handleSeekMouseDown w) = setState (no_change\<lparr>d_seeking := Some True\<rparr>) (state w) \<and>
   player (handleSeekMouseDown w) = player w \<and>
   published (handleSeekMouseDown w) =
     (if socket w = None then []
      else published w @ [(''update'', no_change\<lparr>d_seeking := Some True\<rparr>)]) \<and>
   state (handleSeekChange v w) = setState (no_change\<lparr>d_played := Some v\<rparr>) (state w) \<and>
   player (handleSeekChange v w) = player w \<and>
   published (handleSeekChange v w) =
     (if socket w = None then []
      else published w @ [(''update'', no_change\<lparr>d_played := Some v\<rparr>)]) \<and>
   state (handleSeekMouseUp v w) = setState (no_change\<lparr>d_seeking := Some False\<rparr>) (state w) \<and>
   player (handleSeekMouseUp v w) = map_option (seekTo v None) (player w) \<and>
   published (handleSeekMouseUp v w) =
     (if socket w = None then []
      else published w @ [(''update'', no_change\<lparr>d_seeking := Some False\<rparr>)]) \<and>
   published (seekGesture vs v w) =
     (if socket w = None then []
      else published w @ [(''update'', no_change\<lparr>d_seeking := Some True\<rparr>)]
        @ map (\<lambda>x. (''update'', no_change\<lparr>d_played := Some x\<rparr>)) vs
        @ [(''update'', no_change\<lparr>d_seeking := Some False\<rparr>)]) \<and>
   length (published (seekGesture vs v w)) =
     (if socket w = None then 0 else length (published w) + length vs + 2)"
proof -
  have up: "published (handleSeekMouseUp v w') =
     (if socket w' = None then []
      else published w' @ [(''update'', no_change\<lparr>d_seeking := Some False\<rparr>)])"
    for w' :: "'a Room"
    using published_updateState [of "no_change\<lparr>d_seeking := Some False\<rparr>" w']
    by (simp add: handleSeekMouseUp_def player_seekTo_def published_def)
  have down_socket: "socket (handleSeekMouseDown w) = None \<longleftrightarrow> socket w = None"
    by (simp add: handleSeekMouseDown_def socket_updateState)
  have down:
    "state (handleSeekMouseDown w) = setState (no_change\<lparr>d_seeking := Some True\<rparr>) (state w)"
    "player (handleSeekMouseDown w) = player w"
    "published (handleSeekMouseDown w) =
       (if socket w = None then []
        else published w @ [(''update'', no_change\<lparr>d_seeking := Some True\<rparr>)])"
    by (simp_all add: handleSeekMouseDown_def state_updateState player_updateState
        published_updateState)
  have gesture: "published (seekGesture vs v w) =
     (if socket w = None then []
      else published w @ [(''update'', no_change\<lparr>d_seeking := Some True\<rparr>)]
        @ map (\<lambda>x. (''update'', no_change\<lparr>d_played := Some x\<rparr>)) vs
        @ [(''update'', no_change\<lparr>d_seeking := Some False\<rparr>)])"
  proof (cases "socket w = None")
    case True
    then show ?thesis
      by (simp add: seekGesture_def up socket_fold_none down_socket)
  next
    case False
    then have "socket (handleSeekMouseDown w) \<noteq> None" by (simp add: down_socket)
    from published_fold [OF this, of vs] False show ?thesis
      by (simp add: seekGesture_def up socket_fold_none down_socket down(3))
  qed
  have count: "length (published (seekGesture vs v w)) =
     (if socket w = None then 0 else length (published w) + length vs + 2)"
    by (simp add: gesture)
  have change:
    "state (handleSeekChange v w) = setState (no_change\<lparr>d_played := Some v\<rparr>) (state w)"
    "player (handleSeekChange v w) = player w"
    "published (handleSeekChange v w) =
       (if socket w = None then []
        else published w @ [(''update'', no_change\<lparr>d_played := Some v\<rparr>)])"
    by (simp_all add: handleSeekChange_def state_updateState player_updateState
        published_updateState)
  have release:
    "state (handleSeekMouseUp v w) = setState (no_change\<lparr>d_seeking := Some False\<rparr>) (state w)"
    "player (handleSeekMouseUp v w) = map_option (seekTo v None) (player w)"
    by (simp_all add: handleSeekMouseUp_def player_seekTo_def state_updateState
        player_updateState)
  from down change release up [of w] gesture count show ?thesis
    by simp
qed

subsection \<open>Changing the medium\<close>

text \<open>
  C4 as stated fails. For a URL that the capability check refuses, \<open>changeToURL\<close> raises
  nothing: it returns, having written one line to the console; state, socket and player are
  as before.
\<close>

theorem changeToURL_unplayable_counterexample:
  "\<not> canPlay_youtube ''not a url'' \<and>
   changeToURL canPlay_youtube ''not a url'' room_r1 =
     room_r1\<lparr>console := [Log ''Error, cannot play url:'' ''not a url'']\<rparr>"
  by (simp add: changeToURL_def canPlay_youtube_def room_r1_def mounted_def on_connect_def
      componentDidMount_def constructor_def)

text \<open>
  C4, amended. For a URL that passes the capability check, \<open>changeToURL\<close> merges exactly
  \<open>{url, ready: false, played: 0, loaded: 0, playing: true}\<close> into the state and sends that
  delta when there is a socket. For a URL that fails it, the call returns normally: state
  and socket are unchanged and one line is logged. The player is not touched either way.
\<close>

theorem changeToURL_effect:
  "state (changeToURL canPlay u w) =
     (if canPlay u
      then setState (no_change\<lparr>d_url := Some u, d_ready := Some False,
             d_played := Some (Fin 0), d_loaded := Some (Fin 0), d_playing := Some True\<rparr>)
             (state w)
      else state w) \<and>
   socket (changeToURL canPlay u w) =
     (if canPlay u
      then map_option (socket_emit ''update'' (no_change\<lparr>d_url := Some u,
             d_ready := Some False, d_played := Some (Fin 0), d_loaded := Some (Fin 0),
             d_playing := Some True\<rparr>)) (socket w)
      else socket w) \<and>
   player (changeToURL canPlay u w) = player w \<and>
   console (changeToURL canPlay u w) =
     (if canPlay u then console (load u w)
      else console w @ [Log ''Error, cannot play url:'' u])"
  by (simp add: changeToURL_def load_def state_updateState socket_updateState
      player_updateState)

subsection \<open>End of the medium\<close>

text \<open>
  C5. When \<open>onEnded\<close> fires with \<open>loop\<close> true, the delta merged into the state and sent
  over the socket is exactly \<open>{playing: true, played: 0}\<close>; with \<open>loop\<close> false it is exactly
  \<open>{playing: false}\<close>. (Sending needs the socket, which exists from \<open>componentDidMount\<close>
  on.)
\<close>

theorem onEnded_delta:
  "state (onEnded w) =
     setState (if loop (state w)
               then no_change\<lparr>d_playing := Some True, d_played := Some (Fin 0)\<rparr>
               else no_change\<lparr>d_playing := Some False\<rparr>) (state w) \<and>
   socket (onEnded w) =
     map_option (socket_emit ''update''
       (if loop (state w) then no_change\<lparr>d_playing := Some True, d_played := Some (Fin 0)\<rparr>
        else no_change\<lparr>d_playing := Some False\<rparr>)) (socket w) \<and>
   published (onEnded w) =
     (if socket w = None then []
      else published w @ [(''update'',
        if loop (state w) then no_change\<lparr>d_playing := Some True, d_played := Some (Fin 0)\<rparr>
        else no_change\<lparr>d_playing := Some False\<rparr>)])"
  by (simp add: onEnded_def state_updateState socket_updateState published_updateState)

subsection \<open>The merge\<close>

text \<open>
  C6. Merging a delta is a shallow field-wise overwrite: each field of the result is the
  delta's value when the delta has the field and the state's value when it has not.
  Merging the same delta a second time changes nothing; this holds for the merge itself and
  for the state after \<open>updateState\<close> and after the status handler, the two paths of the
  class that merge a delta.
\<close>

theorem setState_idempotent:
  "setState d (setState d s) = setState d s \<and>
   id_field (setState d s) = (case d_id d of None \<Rightarrow> id_field s | Some v \<Rightarrow> v) \<and>
   url (setState d s) = (case d_url d of None \<Rightarrow> url s | Some v \<Rightarrow> v) \<and>
   owner (setState d s) = (case d_owner d of None \<Rightarrow> owner s | Some v \<Rightarrow> v) \<and>
   playing (setState d s) = (case d_playing d of None \<Rightarrow> playing s | Some v \<Rightarrow> v) \<and>
   volume (setState d s) = (case d_volume d of None \<Rightarrow> volume s | Some v \<Rightarrow> v) \<and>
   muted (setState d s) = (case d_muted d of None \<Rightarrow> muted s | Some v \<Rightarrow> v) \<and>
   played (setState d s) = (case d_played d of None \<Rightarrow> played s | Some v \<Rightarrow> v) \<and>
   loaded (setState d s) = (case d_loaded d of None \<Rightarrow> loaded s | Some v \<Rightarrow> v) \<and>
   duration (setState d s) = (case d_duration d of None \<Rightarrow> duration s | Some v \<Rightarrow> v) \<and>
   playbackRate (setState d s) =
     (case d_playbackRate d of None \<Rightarrow> playbackRate s | Some v \<Rightarrow> v) \<and>
   loop (setState d s) = (case d_loop d of None \<Rightarrow> loop s | Some v \<Rightarrow> v) \<and>
   ready (setState d s) = (case d_ready d of None \<Rightarrow> ready s | Some v \<Rightarrow> v) \<and>
   buffering (setState d s) = (case d_buffering d of None \<Rightarrow> buffering s | Some v \<Rightarrow> v) \<and>
   seeking (setState d s) = (case d_seeking d of None \<Rightarrow> seeking s | Some v \<Rightarrow> v) \<and>
   users (setState d s) = (case d_users d of None \<Rightarrow> users s | Some v \<Rightarrow> v) \<and>
   state (updateState d (updateState d w)) = state (updateState d w) \<and>
   state (onStatus d (onStatus d w)) = state (onStatus d w)"
proof -
  have idem: "setState d (setState d t) = setState d t" for t :: "'a RoomState"
    by (simp add: setState_def overwrite_twice)
  have fields:
    "id_field (setState d s) = (case d_id d of None \<Rightarrow> id_field s | Some v \<Rightarrow> v)"
    "url (setState d s) = (case d_url d of None \<Rightarrow> url s | Some v \<Rightarrow> v)"
    "owner (setState d s) = (case d_owner d of None \<Rightarrow> owner s | Some v \<Rightarrow> v)"
    "playing (setState d s) = (case d_playing d of None \<Rightarrow> playing s | Some v \<Rightarrow> v)"
    "volume (setState d s) = (case d_volume d of None \<Rightarrow> volume s | Some v \<Rightarrow> v)"
    "muted (setState d s) = (case d_muted d of None \<Rightarrow> muted s | Some v \<Rightarrow> v)"
    "played (setState d s) = (case d_played d of None \<Rightarrow> played s | Some v \<Rightarrow> v)"
    "loaded (setState d s) = (case d_loaded d of None \<Rightarrow> loaded s | Some v \<Rightarrow> v)"
    "duration (setState d s) = (case d_duration d of None \<Rightarrow> duration s | Some v \<Rightarrow> v)"
    "playbackRate (setState d s) =
       (case d_playbackRate d of None \<Rightarrow> playbackRate s | Some v \<Rightarrow> v)"
    "loop (setState d s) = (case d_loop d of None \<Rightarrow> loop s | Some v \<Rightarrow> v)"
    "ready (setState d s) = (case d_ready d of None \<Rightarrow> ready s | Some v \<Rightarrow> v)"
    "buffering (setState d s) = (case d_buffering d of None \<Rightarrow> buffering s | Some v \<Rightarrow> v)"
    "seeking (setState d s) = (case d_seeking d of None \<Rightarrow> seeking s | Some v \<Rightarrow> v)"
    "users (setState d s) = (case d_users d of None \<Rightarrow> users s | Some v \<Rightarrow> v)"
    by (simp_all add: setState_def overwrite_case)
  have paths: "state (updateState d (updateState d w)) = state (updateState d w)"
    "state (onStatus d (onStatus d w)) = state (onStatus d w)"
    by (simp_all add: state_updateState state_onStatus idem)
  from idem [of s] fields paths show ?thesis
    by simp
qed

subsection \<open>Joining and leaving\<close>

text \<open>
  C7. \<open>componentDidMount\<close> opens a socket for the room and sends exactly one \<open>update\<close>
  delta, made of the twelve playback fields of the current state (no \<open>id\<close>, \<open>owner\<close> or
  \<open>users\<close>); only then does it register the \<open>status\<close> handler. The state is unchanged.
\<close>

theorem componentDidMount_seeds:
  "socket (componentDidMount docker w) =
     Some \<lparr>endpoint = ENDPOINT docker, query_roomId = roomId w, connected_flag = False,
       calls = [Emit ''update''
          \<lparr>d_id = None, d_url = Some (url (state w)), d_owner = None,
           d_playing = Some (playing (state w)), d_volume = Some (volume (state w)),
           d_muted = Some (muted (state w)), d_played = Some (played (state w)),
           d_loaded = Some (loaded (state w)), d_duration = Some (duration (state w)),
           d_playbackRate = Some (playbackRate (state w)), d_loop = Some (loop (state w)),
           d_ready = Some (ready (state w)), d_buffering = Some (buffering (state w)),
           d_seeking = Some (seeking (state w)), d_users = None\<rparr>,
         On ''status'']\<rparr> \<and>
   published (componentDidMount docker w) =
     [(''update'',
          \<lparr>d_id = None, d_url = Some (url (state w)), d_owner = None,
           d_playing = Some (playing (state w)), d_volume = Some (volume (state w)),
           d_muted = Some (muted (state w)), d_played = Some (played (state w)),
           d_loaded = Some (loaded (state w)), d_duration = Some (duration (state w)),
           d_playbackRate = Some (playbackRate (state w)), d_loop = Some (loop (state w)),
           d_ready = Some (ready (state w)), d_buffering = Some (buffering (state w)),
           d_seeking = Some (seeking (state w)), d_users = None\<rparr>)] \<and>
   state (componentDidMount docker w) = state w"
  by (simp add: componentDidMount_def socketIOClient_def socket_emit_def socket_on_def
      initial_update_def published_def Let_def)

text \<open>
  C8 as stated fails. \<open>mounted\<close> has a socket that has not connected yet;
  \<open>componentWillUnmount\<close> closes a socket only if \<open>connected\<close> holds, so two calls in a row
  return without error and without a single \<open>disconnect\<close>.
\<close>

theorem teardown_unconnected_counterexample:
  "socket mounted \<noteq> None \<and> teardown_twice mounted = Inr mounted \<and> closes mounted = 0"
  by (simp add: teardown_twice_def componentWillUnmount_def closes_def mounted_def
      componentDidMount_def constructor_def socketIOClient_def socket_emit_def socket_on_def
      Let_def)

text \<open>
  C8, amended. On a component that has a socket, two calls of \<open>componentWillUnmount\<close> in a
  row both return without error, the second without any effect. Together they call
  \<open>disconnect\<close> exactly once when the socket was connected at the first call, and not at all
  when it was not.
\<close>

theorem teardown_twice_closes:
  assumes "socket w = Some s"
  shows "let w1 = (if connected_flag s then w\<lparr>socket := Some (socket_disconnect s)\<rparr> else w)
         in componentWillUnmount w = Inr w1 \<and> componentWillUnmount w1 = Inr w1 \<and>
            teardown_twice w = Inr w1 \<and>
            closes w1 = closes w + (if connected_flag s then 1 else 0)"
  using assms
  by (simp add: teardown_twice_def componentWillUnmount_def closes_def socket_disconnect_def
      disconnects_snoc Let_def)

theorem teardown_twice_closes_witness:
  "socket room_r1 = Some (socket_on ''status''
       (socket_emit ''update'' (initial_update (state room_r1))
         (socketIOClient ''http://localhost:8081'' ''r1''))\<lparr>connected_flag := True\<rparr>) \<and>
   closes room_r1 = 0 \<and>
   teardown_twice room_r1 =
     Inr (room_r1\<lparr>socket := map_option socket_disconnect (socket room_r1)\<rparr>) \<and>
   closes (room_r1\<lparr>socket := map_option socket_disconnect (socket room_r1)\<rparr>) = 1"
proof -
  have s: "socket room_r1 = Some (socket_on ''status''
       (socket_emit ''update'' (initial_update (state room_r1))
         (socketIOClient ''http://localhost:8081'' ''r1''))\<lparr>connected_flag := True\<rparr>)"
    by (simp add: room_r1_def mounted_def on_connect_def componentDidMount_def
        constructor_def ENDPOINT_def Let_def)
  have c: "closes room_r1 = 0"
    by (simp add: closes_def s socket_on_def socket_emit_def socketIOClient_def)
  from teardown_twice_closes [OF s] c show ?thesis
    by (simp add: s Let_def)
qed

subsection \<open>Inbound deltas and the socket\<close>

text \<open>
  C9 as stated fails in its conclusion. \<open>room_r1\<close> is playing. An inbound delta
  \<open>{playing: false}\<close> is merged, the player pauses and calls \<open>onPause\<close>, and that callback
  sends \<open>{playing: false}\<close> over the socket: the remote update is sent again by the
  participant that received it.
\<close>

theorem remote_pause_sent_back_counterexample:
  "playing (state room_r1) \<and>
   \<not> playing (state (onStatus (no_change\<lparr>d_playing := Some False\<rparr>) room_r1)) \<and>
   published (onStatus (no_change\<lparr>d_playing := Some False\<rparr>) room_r1) = published room_r1 \<and>
   published (onPause (onStatus (no_change\<lparr>d_playing := Some False\<rparr>) room_r1)) =
     published room_r1 @ [(''update'', no_change\<lparr>d_playing := Some False\<rparr>)]"
proof -
  have s: "socket room_r1 \<noteq> None"
    by (simp add: room_r1_def mounted_def on_connect_def componentDidMount_def Let_def)
  have p: "playing (state room_r1)"
    by (simp add: room_r1_def mounted_def on_connect_def componentDidMount_def
        constructor_def Let_def)
  have after: "\<not> playing (state (onStatus (no_change\<lparr>d_playing := Some False\<rparr>) room_r1))"
    by (simp add: state_onStatus setState_def no_change_def)
  have quiet: "published (onStatus (no_change\<lparr>d_playing := Some False\<rparr>) room_r1)
      = published room_r1"
    by (simp add: published_def socket_onStatus)
  have "socket (onStatus (no_change\<lparr>d_playing := Some False\<rparr>) room_r1) \<noteq> None"
    using s by (simp add: socket_onStatus)
  then have echo: "published (onPause (onStatus (no_change\<lparr>d_playing := Some False\<rparr>) room_r1))
      = published (onStatus (no_change\<lparr>d_playing := Some False\<rparr>) room_r1)
        @ [(''update'', no_change\<lparr>d_playing := Some False\<rparr>)]"
    by (simp add: onPause_def published_updateState)
  from p after quiet echo show ?thesis
    by simp
qed

text \<open>
  C9, amended. One call of the status handler sends nothing: it leaves the socket exactly
  as it was and merges the inbound delta into the state with \<open>setState\<close>, not with
  \<open>updateState\<close>.
\<close>

theorem onStatus_publishes_nothing:
  "socket (onStatus data w) = socket w \<and> published (onStatus data w) = published w \<and>
   state (onStatus data w) = setState data (state w)"
  by (simp add: socket_onStatus state_onStatus published_def)

subsection \<open>An inbound position of zero\<close>

text \<open>
  C10. An inbound delta whose \<open>played\<close> is 0 or absent never seeks the player, however far
  the local position is from 0; the delta, its \<open>played = 0\<close> included, is merged all the
  same.
\<close>

theorem onStatus_zero_never_seeks:
  assumes "d_played data = None \<or> d_played data = Some (Fin 0)"
  shows "player (onStatus data w) = player w \<and>
         state (onStatus data w) = setState data (state w)"
  using assms by (auto simp add: onStatus_def Let_def)

text \<open>In \<open>far_ahead\<close> the local position is 0.9 of an hour: 3240 seconds from 0.\<close>

theorem onStatus_zero_never_seeks_witness:
  "played (state far_ahead) = fl (9 / 10) \<and>
   player (onStatus (no_change\<lparr>d_played := Some (Fin 0), d_playing := Some False\<rparr>) far_ahead)
     = player far_ahead \<and>
   played (state (onStatus (no_change\<lparr>d_played := Some (Fin 0), d_playing := Some False\<rparr>)
     far_ahead)) = Fin 0 \<and>
   playing (state (onStatus (no_change\<lparr>d_played := Some (Fin 0), d_playing := Some False\<rparr>)
     far_ahead)) = False"
  using onStatus_zero_never_seeks
    [of "no_change\<lparr>d_played := Some (Fin 0), d_playing := Some False\<rparr>" far_ahead]
  by (simp add: no_change_def setState_def far_ahead_def)

end
